theory Spec2Isabelle
  imports Main "HOL-Library.Sublist"
begin

section \<open>The diagram builder system of \<^verbatim>\<open>main.cpp\<close>\<close>

text \<open>
  The program wires five design patterns together: two singleton builders that keep a
  coordinate string, a drawing proxy, a flyweight pool of figures, a director and three
  factories. Every method prints to standard output, so the model threads one program
  state through every call: the fields of the singletons, the store of the objects
  allocated by \<^verbatim>\<open>make_shared\<close>, and the text written so far.
\<close>

subsection \<open>Strings\<close>

definition nl :: string where
  "nl = [CHR 0x0A]"

text \<open>
  \<^verbatim>\<open>std::string::find(pat)\<close>: the first position at which \<open>pat\<close> occurs, and
  \<^verbatim>\<open>npos\<close> (here \<open>None\<close>) when it occurs nowhere. \<open>find_from\<close> carries the
  position of the text that is left.
\<close>

fun find_from :: "string \<Rightarrow> string \<Rightarrow> nat \<Rightarrow> nat option" where
  "find_from [] pat i = (if pat = [] then Some i else None)"
| "find_from (c # cs) pat i =
     (if prefix pat (c # cs) then Some i else find_from cs pat (Suc i))"

definition string_find :: "string \<Rightarrow> string \<Rightarrow> nat option" where
  "string_find s pat = find_from s pat 0"

subsection \<open>Objects and the program state\<close>

text \<open>
  The two concrete subclasses of \<^verbatim>\<open>FlyweightFigure\<close>; \<open>type\<close> is the protected
  field of the base class, set by the constructor and never written again.
\<close>

datatype FlyweightFigure = ColoredFigure (type: string) | BWFigure (type: string)

text \<open>
  A \<^verbatim>\<open>shared_ptr<FlyweightFigure>\<close> is the address of its object: two handles are the
  same instance exactly when the addresses are equal. The store is the list of the
  objects allocated so far, an object's address being its index. The pool owns a handle to
  every object it ever stored, so no object is freed and no address is used twice.
\<close>

type_synonym addr = nat

text \<open>
  \<^item> \<open>BarBuilder_coord\<close>, \<open>LineBuilder_coord\<close>: the field \<^verbatim>\<open>coord\<close> of the static
    instance inside \<^verbatim>\<open>BarBuilder::getInstance\<close> and \<^verbatim>\<open>LineBuilder::getInstance\<close>.
    The instances are built on first use by a defaulted constructor that prints nothing,
    so the model holds them from the start with the empty string. Their member
    \<^verbatim>\<open>proxy\<close> has no field.
  \<^item> \<open>pool\<close>: the map \<^verbatim>\<open>FigureFactory::getInstance().flyFactory.pool\<close>, the only
    \<^verbatim>\<open>FlyweightFactory\<close> the program creates.
  \<^item> \<open>heap\<close>: the objects made by \<^verbatim>\<open>make_shared\<close>.
  \<^item> \<open>cout\<close>: every character written to standard output, in order.
  \<^item> \<open>calls\<close>: a log that the program itself does not keep. Each method of the
    classes behind the interfaces \<^verbatim>\<open>Diagram\<close>, \<^verbatim>\<open>DrawProxy\<close>, \<^verbatim>\<open>FlyweightFigure\<close>
    and \<^verbatim>\<open>Builder\<close> appends its qualified name on entry, so that a property can say
    which of them ran and in which order. No method reads the log.
\<close>

record world =
  BarBuilder_coord :: string
  LineBuilder_coord :: string
  pool :: "string \<rightharpoonup> addr"
  heap :: "FlyweightFigure list"
  cout :: string
  calls :: "string list"

definition start :: world where
  "start = \<lparr>BarBuilder_coord = [], LineBuilder_coord = [], pool = Map.empty,
             heap = [], cout = [], calls = []\<rparr>"

definition print :: "string \<Rightarrow> world \<Rightarrow> world" where
  "print t s = s\<lparr>cout := cout s @ t\<rparr>"

definition enter :: "string \<Rightarrow> world \<Rightarrow> world" where
  "enter m s = s\<lparr>calls := calls s @ [m]\<rparr>"

subsection \<open>The diagram classes\<close>

definition Graph_calc :: "world \<Rightarrow> world" where
  "Graph_calc s = print (''Calculating Graph'' @ nl) (enter ''Graph::calc'' s)"

definition Graph_draw :: "world \<Rightarrow> world" where
  "Graph_draw s =
     print (''[Graph] Drawing graphical representation.'' @ nl) (enter ''Graph::draw'' s)"

definition Graph_drag :: "world \<Rightarrow> world" where
  "Graph_drag s = print (''Dragging Graph'' @ nl) (enter ''Graph::drag'' s)"

definition Figure_calc :: "world \<Rightarrow> world" where
  "Figure_calc s = print (''Calculating Figure'' @ nl) (enter ''Figure::calc'' s)"

definition Figure_draw :: "world \<Rightarrow> world" where
  "Figure_draw s =
     print (''[Figure Stub] Drawing textual stub.'' @ nl) (enter ''Figure::draw'' s)"

definition Figure_drag :: "world \<Rightarrow> world" where
  "Figure_drag s = print (''Dragging Figure'' @ nl) (enter ''Figure::drag'' s)"

subsection \<open>The proxy\<close>

definition DrawGraph_draw :: "world \<Rightarrow> world" where
  "DrawGraph_draw s =
     print (''[Graph Proxy] Drawing graphical + textual stub'' @ nl)
       (enter ''DrawGraph::draw'' s)"

subsection \<open>The flyweight figures and their factory\<close>

definition ColoredFigure_draw :: "string \<Rightarrow> world \<Rightarrow> world" where
  "ColoredFigure_draw t s =
     print (''[Colored Flyweight] Drawing colored figure of type: '' @ t @ nl)
       (enter ''ColoredFigure::draw'' s)"

definition BWFigure_draw :: "string \<Rightarrow> world \<Rightarrow> world" where
  "BWFigure_draw t s =
     print (''[B/W Flyweight] Drawing black and white figure of type: '' @ t @ nl)
       (enter ''BWFigure::draw'' s)"

text \<open>The virtual call \<^verbatim>\<open>fig->draw()\<close> on the object behind a handle.\<close>

fun FlyweightFigure_draw :: "FlyweightFigure \<Rightarrow> world \<Rightarrow> world" where
  "FlyweightFigure_draw (ColoredFigure t) s = ColoredFigure_draw t s"
| "FlyweightFigure_draw (BWFigure t) s = BWFigure_draw t s"

definition make_shared :: "FlyweightFigure \<Rightarrow> world \<Rightarrow> addr \<times> world" where
  "make_shared obj s = (length (heap s), s\<lparr>heap := heap s @ [obj]\<rparr>)"

text \<open>
  Reading the object behind a handle. A handle that points outside the store has no
  object; the program never holds one, which is proved below rather than assumed.
\<close>

definition deref :: "addr \<Rightarrow> world \<Rightarrow> FlyweightFigure option" where
  "deref p s = (if p < length (heap s) then Some (heap s ! p) else None)"

text \<open>
  \<^verbatim>\<open>FlyweightFactory::getFigure\<close>. When the key is absent the figure is made and
  stored under the key, a \<^verbatim>\<open>ColoredFigure\<close> if \<^verbatim>\<open>find("Color")\<close> is not
  \<^verbatim>\<open>npos\<close> and a \<^verbatim>\<open>BWFigure\<close> otherwise. The closing \<^verbatim>\<open>pool[type]\<close> then reads
  the handle just stored, or the one that was there already.
\<close>

definition FlyweightFactory_getFigure :: "string \<Rightarrow> world \<Rightarrow> addr \<times> world" where
  "FlyweightFactory_getFigure ty s =
     (case pool s ty of
        None \<Rightarrow>
          (case make_shared
                  (if string_find ty ''Color'' \<noteq> None then ColoredFigure ty else BWFigure ty) s
           of (p, s') \<Rightarrow> (p, s'\<lparr>pool := (pool s')(ty \<mapsto> p)\<rparr>))
      | Some p \<Rightarrow> (p, s))"

subsection \<open>The builders\<close>

definition BarBuilder_setCoord :: "string \<Rightarrow> world \<Rightarrow> world" where
  "BarBuilder_setCoord c s = (enter ''BarBuilder::setCoord'' s)\<lparr>BarBuilder_coord := c\<rparr>"

definition BarBuilder_calc :: "world \<Rightarrow> world" where
  "BarBuilder_calc s =
     print (''Bar calc at '' @ BarBuilder_coord s @ nl) (enter ''BarBuilder::calc'' s)"

definition BarBuilder_draw :: "world \<Rightarrow> world" where
  "BarBuilder_draw s = DrawGraph_draw (enter ''BarBuilder::draw'' s)"

definition BarBuilder_drag :: "world \<Rightarrow> world" where
  "BarBuilder_drag s =
     print (''Drag Bar at '' @ BarBuilder_coord s @ nl) (enter ''BarBuilder::drag'' s)"

definition LineBuilder_setCoord :: "string \<Rightarrow> world \<Rightarrow> world" where
  "LineBuilder_setCoord c s = (enter ''LineBuilder::setCoord'' s)\<lparr>LineBuilder_coord := c\<rparr>"

definition LineBuilder_calc :: "world \<Rightarrow> world" where
  "LineBuilder_calc s =
     print (''Line calc at '' @ LineBuilder_coord s @ nl) (enter ''LineBuilder::calc'' s)"

definition LineBuilder_draw :: "world \<Rightarrow> world" where
  "LineBuilder_draw s = DrawGraph_draw (enter ''LineBuilder::draw'' s)"

definition LineBuilder_drag :: "world \<Rightarrow> world" where
  "LineBuilder_drag s =
     print (''Drag Line at '' @ LineBuilder_coord s @ nl) (enter ''LineBuilder::drag'' s)"

text \<open>
  A \<^verbatim>\<open>Builder*\<close> in this program is the address of one of the two static instances;
  a call through it dispatches on which one.
\<close>

datatype Builder_ptr = BarBuilder_instance | LineBuilder_instance

fun Builder_setCoord :: "Builder_ptr \<Rightarrow> string \<Rightarrow> world \<Rightarrow> world" where
  "Builder_setCoord BarBuilder_instance c s = BarBuilder_setCoord c s"
| "Builder_setCoord LineBuilder_instance c s = LineBuilder_setCoord c s"

fun Builder_calc :: "Builder_ptr \<Rightarrow> world \<Rightarrow> world" where
  "Builder_calc BarBuilder_instance s = BarBuilder_calc s"
| "Builder_calc LineBuilder_instance s = LineBuilder_calc s"

fun Builder_draw :: "Builder_ptr \<Rightarrow> world \<Rightarrow> world" where
  "Builder_draw BarBuilder_instance s = BarBuilder_draw s"
| "Builder_draw LineBuilder_instance s = LineBuilder_draw s"

fun Builder_drag :: "Builder_ptr \<Rightarrow> world \<Rightarrow> world" where
  "Builder_drag BarBuilder_instance s = BarBuilder_drag s"
| "Builder_drag LineBuilder_instance s = LineBuilder_drag s"

subsection \<open>The director and the factories\<close>

text \<open>
  A \<^verbatim>\<open>Director\<close> is declared without an initialiser, so its \<^verbatim>\<open>builder\<close> holds no
  usable address until \<^verbatim>\<open>setBuilder\<close> runs; \<^verbatim>\<open>construct\<close> on such a director has
  no defined behaviour and is the result \<open>None\<close>.
\<close>

record Director =
  builder :: "Builder_ptr option"

definition Director_new :: Director where
  "Director_new = \<lparr>builder = None\<rparr>"

definition Director_setBuilder :: "Builder_ptr \<Rightarrow> Director \<Rightarrow> Director" where
  "Director_setBuilder b d = d\<lparr>builder := Some b\<rparr>"

definition Director_construct :: "Director \<Rightarrow> string \<Rightarrow> string \<Rightarrow> world \<Rightarrow> world option" where
  "Director_construct d ty coord s =
     (case builder d of
        None \<Rightarrow> None
      | Some b \<Rightarrow>
          Some (Builder_drag b (Builder_draw b (Builder_calc b (Builder_setCoord b coord s)))))"

definition GraphFactory_createGraph :: "string \<Rightarrow> string \<Rightarrow> world \<Rightarrow> world option" where
  "GraphFactory_createGraph ty coord s =
     (let d = Director_new in
      if ty = ''Bar'' then
        Director_construct (Director_setBuilder BarBuilder_instance d) ty coord s
      else if ty = ''Line'' then
        Director_construct (Director_setBuilder LineBuilder_instance d) ty coord s
      else Some s)"

text \<open>
  \<^verbatim>\<open>FigureFactory::getFigure\<close> on the singleton: the handle from the pool, the
  coordinate line, then the figure's own \<^verbatim>\<open>draw\<close>. The result is the handle and the
  new state, or \<open>None\<close> if the handle had no object to call.
\<close>

definition FigureFactory_getFigure :: "string \<Rightarrow> string \<Rightarrow> world \<Rightarrow> (addr \<times> world) option" where
  "FigureFactory_getFigure ty coord s =
     (case FlyweightFactory_getFigure ty s of
        (fig, s1) \<Rightarrow>
          (let s2 = print (''Coordinates: '' @ coord @ nl) s1 in
           case deref fig s2 of
             None \<Rightarrow> None
           | Some obj \<Rightarrow> Some (fig, FlyweightFigure_draw obj s2)))"

text \<open>
  A \<^verbatim>\<open>DiagramFactory\<close> object has one member, a \<^verbatim>\<open>GraphFactory\<close> without fields, so
  an instance is told from another by its identity alone: the first argument of each
  method is the object it is called on.
\<close>

type_synonym DiagramFactory = nat

definition DiagramFactory_createGraph ::
    "DiagramFactory \<Rightarrow> string \<Rightarrow> string \<Rightarrow> world \<Rightarrow> world option" where
  "DiagramFactory_createGraph this ty coord s = GraphFactory_createGraph ty coord s"

definition DiagramFactory_createFigure ::
    "DiagramFactory \<Rightarrow> string \<Rightarrow> string \<Rightarrow> world \<Rightarrow> world option" where
  "DiagramFactory_createFigure this ty coord s =
     (case FigureFactory_getFigure ty coord s of
        None \<Rightarrow> None
      | Some (fig, s') \<Rightarrow> Some s')"

definition DiagramFactory_getDiagram ::
    "DiagramFactory \<Rightarrow> string \<Rightarrow> string \<Rightarrow> string \<Rightarrow> world \<Rightarrow> world option" where
  "DiagramFactory_getDiagram this element ty coord s =
     (if element = ''Graph'' then DiagramFactory_createGraph this ty coord s
      else if element = ''Figure'' then DiagramFactory_createFigure this ty coord s
      else Some s)"

subsection \<open>Executions\<close>

text \<open>
  What client code can ask of the factories: the three public methods of a
  \<^verbatim>\<open>DiagramFactory\<close> and \<^verbatim>\<open>getFigure\<close> on the \<^verbatim>\<open>FigureFactory\<close> singleton. An
  execution is a list of such requests, run in order; it stops with \<open>None\<close> at a request
  that has no defined behaviour.
\<close>

datatype request =
    GetDiagram DiagramFactory string string string
  | CreateGraph DiagramFactory string string
  | CreateFigure DiagramFactory string string
  | GetFigure string string

fun serve :: "request \<Rightarrow> world \<Rightarrow> world option" where
  "serve (GetDiagram this element ty coord) s = DiagramFactory_getDiagram this element ty coord s"
| "serve (CreateGraph this ty coord) s = DiagramFactory_createGraph this ty coord s"
| "serve (CreateFigure this ty coord) s = DiagramFactory_createFigure this ty coord s"
| "serve (GetFigure ty coord) s =
     (case FigureFactory_getFigure ty coord s of
        None \<Rightarrow> None
      | Some (fig, s') \<Rightarrow> Some s')"

fun exec :: "request list \<Rightarrow> world \<Rightarrow> world option" where
  "exec [] s = Some s"
| "exec (r # rs) s = (case serve r s of None \<Rightarrow> None | Some s' \<Rightarrow> exec rs s')"

text \<open>The four requests of \<^verbatim>\<open>main\<close>, on its one factory \<^verbatim>\<open>df\<close>.\<close>

definition main_requests :: "request list" where
  "main_requests =
     [GetDiagram 0 ''Graph'' ''Line'' ''(10,20)'',
      GetDiagram 0 ''Graph'' ''Bar'' ''(15,30)'',
      GetDiagram 0 ''Figure'' ''CircleColor'' ''(5,5)'',
      GetDiagram 0 ''Figure'' ''SquareBW'' ''(2,3)'']"

subsection \<open>Auxiliary notions for the properties\<close>

text \<open>
  The figure that \<^verbatim>\<open>FlyweightFactory::getFigure\<close> makes for a key, and the
  invariant of the pool: every stored handle points into the store, at the figure made
  for its key.
\<close>

definition classify :: "string \<Rightarrow> FlyweightFigure" where
  "classify k = (if string_find k ''Color'' \<noteq> None then ColoredFigure k else BWFigure k)"

definition pool_ok :: "world \<Rightarrow> bool" where
  "pool_ok s = (\<forall>k p. pool s k = Some p \<longrightarrow> deref p s = Some (classify k))"

text \<open>The names that the graph path and the figure path can add to the log.\<close>

definition graph_calls :: "string list" where
  "graph_calls =
     [''BarBuilder::setCoord'', ''BarBuilder::calc'', ''BarBuilder::draw'', ''BarBuilder::drag'',
      ''LineBuilder::setCoord'', ''LineBuilder::calc'', ''LineBuilder::draw'', ''LineBuilder::drag'',
      ''DrawGraph::draw'']"

definition figure_calls :: "string list" where
  "figure_calls = [''ColoredFigure::draw'', ''BWFigure::draw'']"

text \<open>
  The coordinate that a request hands to the builder of graph type \<open>ty\<close>, if it is a
  graph request of that type, and the coordinate of the most recent such request in a
  list of requests.
\<close>

fun asks_graph :: "string \<Rightarrow> request \<Rightarrow> string option" where
  "asks_graph ty (GetDiagram this element ty' coord) =
     (if element = ''Graph'' \<and> ty' = ty then Some coord else None)"
| "asks_graph ty (CreateGraph this ty' coord) = (if ty' = ty then Some coord else None)"
| "asks_graph ty (CreateFigure this ty' coord) = None"
| "asks_graph ty (GetFigure ty' coord) = None"

fun most_recent :: "string \<Rightarrow> request list \<Rightarrow> string option" where
  "most_recent ty [] = None"
| "most_recent ty (r # rs) =
     (case most_recent ty rs of Some c \<Rightarrow> Some c | None \<Rightarrow> asks_graph ty r)"

section \<open>Basic facts\<close>

subsection \<open>Substring search\<close>

lemma find_from_sublist: "(find_from s pat i \<noteq> None) = sublist pat s"
  by (induction s arbitrary: i) (auto simp: sublist_Cons_right)

lemma string_find_contains:
  "(string_find s pat \<noteq> None) = (\<exists>u v. s = u @ pat @ v)"
  using find_from_sublist [of s pat 0] unfolding string_find_def sublist_def by simp

subsection \<open>The graph path\<close>

lemmas output_defs = print_def enter_def

lemmas builder_defs =
  DrawGraph_draw_def
  BarBuilder_setCoord_def BarBuilder_calc_def BarBuilder_draw_def BarBuilder_drag_def
  LineBuilder_setCoord_def LineBuilder_calc_def LineBuilder_draw_def LineBuilder_drag_def

lemma createGraph_Bar:
  "GraphFactory_createGraph ''Bar'' coord s =
     Some (s\<lparr>BarBuilder_coord := coord,
             cout := cout s @ ''Bar calc at '' @ coord @ nl
                      @ ''[Graph Proxy] Drawing graphical + textual stub'' @ nl
                      @ ''Drag Bar at '' @ coord @ nl,
             calls := calls s @ [''BarBuilder::setCoord'', ''BarBuilder::calc'',
                        ''BarBuilder::draw'', ''DrawGraph::draw'', ''BarBuilder::drag'']\<rparr>)"
  by (simp add: GraphFactory_createGraph_def Director_new_def Director_setBuilder_def
      Director_construct_def builder_defs output_defs)

lemma createGraph_Line:
  "GraphFactory_createGraph ''Line'' coord s =
     Some (s\<lparr>LineBuilder_coord := coord,
             cout := cout s @ ''Line calc at '' @ coord @ nl
                      @ ''[Graph Proxy] Drawing graphical + textual stub'' @ nl
                      @ ''Drag Line at '' @ coord @ nl,
             calls := calls s @ [''LineBuilder::setCoord'', ''LineBuilder::calc'',
                        ''LineBuilder::draw'', ''DrawGraph::draw'', ''LineBuilder::drag'']\<rparr>)"
  by (simp add: GraphFactory_createGraph_def Director_new_def Director_setBuilder_def
      Director_construct_def builder_defs output_defs)

lemma createGraph_other:
  "ty \<noteq> ''Bar'' \<Longrightarrow> ty \<noteq> ''Line'' \<Longrightarrow> GraphFactory_createGraph ty coord s = Some s"
  by (simp add: GraphFactory_createGraph_def)

lemma createGraph_cases:
  obtains (bar) "ty = ''Bar''" | (line) "ty = ''Line''" | (other) "ty \<noteq> ''Bar''" "ty \<noteq> ''Line''"
  by blast

lemma createGraph_total: "\<exists>s'. GraphFactory_createGraph ty coord s = Some s'"
  by (cases ty rule: createGraph_cases) (simp_all add: createGraph_Bar createGraph_Line createGraph_other)

lemma createGraph_frame:
  assumes "GraphFactory_createGraph ty coord s = Some s'"
  shows "pool s' = pool s" and "heap s' = heap s"
    and "BarBuilder_coord s' = (if ty = ''Bar'' then coord else BarBuilder_coord s)"
    and "LineBuilder_coord s' = (if ty = ''Line'' then coord else LineBuilder_coord s)"
  using assms
  by (cases ty rule: createGraph_cases; auto simp: createGraph_Bar createGraph_Line createGraph_other)+

lemma createGraph_calls:
  assumes "GraphFactory_createGraph ty coord s = Some s'"
  shows "\<exists>new. calls s' = calls s @ new \<and> set new \<subseteq> set graph_calls"
  using assms
  by (cases ty rule: createGraph_cases)
     (auto simp: createGraph_Bar createGraph_Line createGraph_other graph_calls_def)

subsection \<open>The pool invariant and the figure path\<close>

lemma pool_ok_start: "pool_ok start"
  by (simp add: pool_ok_def start_def)

lemma deref_heap: "heap s' = heap s \<Longrightarrow> deref p s' = deref p s"
  by (simp add: deref_def)

lemma deref_print: "deref p (print t s) = deref p s"
  by (simp add: deref_def print_def)

lemma createGraph_pool_ok:
  assumes "GraphFactory_createGraph ty coord s = Some s'" and "pool_ok s"
  shows "pool_ok s'"
proof -
  have "pool s' = pool s" and "\<And>p. deref p s' = deref p s"
    using createGraph_frame(1,2) [OF assms(1)] by (simp_all add: deref_def)
  with assms(2) show ?thesis
    unfolding pool_ok_def by simp
qed

lemma getFigure_cached:
  "pool s ty = Some p \<Longrightarrow> FlyweightFactory_getFigure ty s = (p, s)"
  by (simp add: FlyweightFactory_getFigure_def)

lemma getFigure_fresh:
  "pool s ty = None \<Longrightarrow>
   FlyweightFactory_getFigure ty s =
     (length (heap s), s\<lparr>heap := heap s @ [classify ty], pool := (pool s)(ty \<mapsto> length (heap s))\<rparr>)"
  by (simp add: FlyweightFactory_getFigure_def make_shared_def classify_def)

lemma getFigure_pool_ok:
  assumes "pool_ok s" and "FlyweightFactory_getFigure ty s = (p, s')"
  shows "pool_ok s' \<and> pool s' ty = Some p \<and> deref p s' = Some (classify ty)"
proof (cases "pool s ty")
  case None
  with assms(2) have s': "s' = s\<lparr>heap := heap s @ [classify ty], pool := (pool s)(ty \<mapsto> length (heap s))\<rparr>"
    and p: "p = length (heap s)"
    by (auto simp: getFigure_fresh)
  from assms(1) show ?thesis
    unfolding s' p pool_ok_def deref_def
    by (auto simp: nth_append split: if_splits)
next
  case (Some q)
  with assms show ?thesis
    by (auto simp: getFigure_cached pool_ok_def)
qed

lemma draw_classify:
  "FlyweightFigure_draw (classify ty) s =
     s\<lparr>cout := cout s @
          (if string_find ty ''Color'' \<noteq> None
           then ''[Colored Flyweight] Drawing colored figure of type: ''
           else ''[B/W Flyweight] Drawing black and white figure of type: '') @ ty @ nl,
        calls := calls s @
          [if string_find ty ''Color'' \<noteq> None then ''ColoredFigure::draw'' else ''BWFigure::draw'']\<rparr>"
  by (simp add: classify_def ColoredFigure_draw_def BWFigure_draw_def output_defs)

lemma getFigure_ok:
  assumes "pool_ok s" and "FlyweightFactory_getFigure ty s = (p, s1)"
  shows "FigureFactory_getFigure ty coord s =
           Some (p, FlyweightFigure_draw (classify ty) (print (''Coordinates: '' @ coord @ nl) s1))"
proof -
  from getFigure_pool_ok [OF assms] have "deref p s1 = Some (classify ty)" by simp
  then have "deref p (print (''Coordinates: '' @ coord @ nl) s1) = Some (classify ty)"
    by (simp add: deref_print)
  with assms(2) show ?thesis
    by (simp add: FigureFactory_getFigure_def)
qed

lemma getFigure_effect:
  assumes "pool_ok s"
  shows "\<exists>p s'. FigureFactory_getFigure ty coord s = Some (p, s') \<and>
      pool_ok s' \<and> pool s' ty = Some p \<and> deref p s' = Some (classify ty) \<and>
      (case pool s ty of
         Some q \<Rightarrow> p = q \<and> pool s' = pool s \<and> heap s' = heap s
       | None \<Rightarrow> pool s' = (pool s)(ty \<mapsto> p) \<and> heap s' = heap s @ [classify ty]) \<and>
      BarBuilder_coord s' = BarBuilder_coord s \<and> LineBuilder_coord s' = LineBuilder_coord s \<and>
      cout s' = cout s @ ''Coordinates: '' @ coord @ nl @
          (if string_find ty ''Color'' \<noteq> None
           then ''[Colored Flyweight] Drawing colored figure of type: ''
           else ''[B/W Flyweight] Drawing black and white figure of type: '') @ ty @ nl \<and>
      calls s' = calls s @
          [if string_find ty ''Color'' \<noteq> None then ''ColoredFigure::draw'' else ''BWFigure::draw'']"
proof -
  obtain p s1 where g: "FlyweightFactory_getFigure ty s = (p, s1)"
    by (cases "FlyweightFactory_getFigure ty s")
  define s' where "s' = FlyweightFigure_draw (classify ty) (print (''Coordinates: '' @ coord @ nl) s1)"
  have r: "FigureFactory_getFigure ty coord s = Some (p, s')"
    unfolding s'_def by (rule getFigure_ok [OF assms g])
  have same: "pool s' = pool s1" "heap s' = heap s1"
      "BarBuilder_coord s' = BarBuilder_coord s1" "LineBuilder_coord s' = LineBuilder_coord s1"
    by (simp_all add: s'_def draw_classify print_def)
  from getFigure_pool_ok [OF assms g]
  have ok1: "pool_ok s1" and in1: "pool s1 ty = Some p" and d1: "deref p s1 = Some (classify ty)"
    by simp_all
  have d: "\<And>q. deref q s' = deref q s1"
    using same(2) by (simp add: deref_def)
  have ok: "pool_ok s'"
    using ok1 unfolding pool_ok_def same(1) d .
  have step: "(case pool s ty of
         Some q \<Rightarrow> p = q \<and> pool s1 = pool s \<and> heap s1 = heap s
       | None \<Rightarrow> pool s1 = (pool s)(ty \<mapsto> p) \<and> heap s1 = heap s @ [classify ty])"
    and other: "BarBuilder_coord s1 = BarBuilder_coord s" "LineBuilder_coord s1 = LineBuilder_coord s"
       "cout s1 = cout s" "calls s1 = calls s"
    using g by (cases "pool s ty"; auto simp: getFigure_fresh getFigure_cached)+
  have out: "cout s' = cout s1 @ ''Coordinates: '' @ coord @ nl @
          (if string_find ty ''Color'' \<noteq> None
           then ''[Colored Flyweight] Drawing colored figure of type: ''
           else ''[B/W Flyweight] Drawing black and white figure of type: '') @ ty @ nl"
    and log: "calls s' = calls s1 @
          [if string_find ty ''Color'' \<noteq> None then ''ColoredFigure::draw'' else ''BWFigure::draw'']"
    by (simp_all add: s'_def draw_classify print_def)
  show ?thesis
  proof (intro exI conjI)
    show "FigureFactory_getFigure ty coord s = Some (p, s')" by (rule r)
    show "pool_ok s'" by (rule ok)
    show "pool s' ty = Some p" using in1 same(1) by simp
    show "deref p s' = Some (classify ty)" using d1 d by simp
    show "case pool s ty of
         Some q \<Rightarrow> p = q \<and> pool s' = pool s \<and> heap s' = heap s
       | None \<Rightarrow> pool s' = (pool s)(ty \<mapsto> p) \<and> heap s' = heap s @ [classify ty]"
      using step unfolding same .
    show "BarBuilder_coord s' = BarBuilder_coord s" using other(1) same(3) by simp
    show "LineBuilder_coord s' = LineBuilder_coord s" using other(2) same(4) by simp
    show "cout s' = cout s @ ''Coordinates: '' @ coord @ nl @
          (if string_find ty ''Color'' \<noteq> None
           then ''[Colored Flyweight] Drawing colored figure of type: ''
           else ''[B/W Flyweight] Drawing black and white figure of type: '') @ ty @ nl"
      using out unfolding other(3) .
    show "calls s' = calls s @
          [if string_find ty ''Color'' \<noteq> None then ''ColoredFigure::draw'' else ''BWFigure::draw'']"
      using log unfolding other(4) .
  qed
qed

lemma getFigure_again:
  assumes "pool_ok s" and "pool s key = Some p"
  shows "\<exists>s'. FigureFactory_getFigure key coord s = Some (p, s') \<and> pool_ok s' \<and>
           pool s' = pool s \<and> heap s' = heap s"
  using getFigure_effect [OF assms(1), of key coord] assms(2) by auto

subsection \<open>Requests and executions\<close>

text \<open>
  From a state that satisfies the pool invariant every request is one of three things: a
  graph construction, a figure lookup, or nothing at all.
\<close>

lemma serve_cases [consumes 1, case_names graph figure skip]:
  assumes "pool_ok s"
  obtains
    (graph) ty coord s' where "serve r s = Some s'"
      and "GraphFactory_createGraph ty coord s = Some s'"
      and "\<And>t. asks_graph t r = (if ty = t then Some coord else None)"
  | (figure) ty coord p s' where "serve r s = Some s'"
      and "FigureFactory_getFigure ty coord s = Some (p, s')"
      and "\<And>t. asks_graph t r = None"
  | (skip) "serve r s = Some s" and "\<And>t. asks_graph t r = None"
proof (cases r)
  case (GetDiagram this element ty coord)
  consider "element = ''Graph''" | "element = ''Figure''"
    | "element \<noteq> ''Graph''" "element \<noteq> ''Figure''" by blast
  then show ?thesis
  proof cases
    case 1
    obtain s' where "GraphFactory_createGraph ty coord s = Some s'"
      using createGraph_total by blast
    with 1 GetDiagram show ?thesis
      by (intro graph [of s' ty coord])
         (simp_all add: DiagramFactory_getDiagram_def DiagramFactory_createGraph_def)
  next
    case 2
    obtain p s' where "FigureFactory_getFigure ty coord s = Some (p, s')"
      using getFigure_effect [OF assms] by blast
    with 2 GetDiagram show ?thesis
      by (intro figure [of s' ty coord p])
         (simp_all add: DiagramFactory_getDiagram_def DiagramFactory_createFigure_def)
  next
    case 3
    with GetDiagram show ?thesis
      by (intro skip) (simp_all add: DiagramFactory_getDiagram_def)
  qed
next
  case (CreateGraph this ty coord)
  obtain s' where "GraphFactory_createGraph ty coord s = Some s'"
    using createGraph_total by blast
  with CreateGraph show ?thesis
    by (intro graph [of s' ty coord]) (simp_all add: DiagramFactory_createGraph_def)
next
  case (CreateFigure this ty coord)
  obtain p s' where "FigureFactory_getFigure ty coord s = Some (p, s')"
    using getFigure_effect [OF assms] by blast
  with CreateFigure show ?thesis
    by (intro figure [of s' ty coord p]) (simp_all add: DiagramFactory_createFigure_def)
next
  case (GetFigure ty coord)
  obtain p s' where "FigureFactory_getFigure ty coord s = Some (p, s')"
    using getFigure_effect [OF assms] by blast
  with GetFigure show ?thesis
    by (intro figure [of s' ty coord p]) simp_all
qed

lemma serve_ok:
  assumes "pool_ok s"
  shows "\<exists>s'. serve r s = Some s' \<and> pool_ok s'"
  using assms
proof (cases rule: serve_cases [of s r])
  case (graph ty coord s')
  then show ?thesis using createGraph_pool_ok assms by blast
next
  case (figure ty coord p s')
  then show ?thesis using getFigure_effect [OF assms, of ty coord] by simp
next
  case skip
  then show ?thesis using assms by simp
qed

lemma serve_pool:
  assumes "pool_ok s" and "serve r s = Some s'"
  shows "(pool s' = pool s \<and> heap s' = heap s) \<or>
         (\<exists>k p. pool s k = None \<and> pool s' = (pool s)(k \<mapsto> p) \<and> heap s' = heap s @ [classify k])"
  using assms(1)
proof (cases rule: serve_cases [of s r])
  case (graph ty coord s'')
  then show ?thesis using assms(2) createGraph_frame(1,2) by simp
next
  case (figure ty coord p s'')
  with assms(2) getFigure_effect [OF assms(1), of ty coord] show ?thesis
    by (cases "pool s ty") auto
next
  case skip
  then show ?thesis using assms(2) by simp
qed

lemma serve_coords:
  assumes "pool_ok s" and "serve r s = Some s'"
  shows "BarBuilder_coord s' = (case asks_graph ''Bar'' r of Some c \<Rightarrow> c | None \<Rightarrow> BarBuilder_coord s) \<and>
         LineBuilder_coord s' = (case asks_graph ''Line'' r of Some c \<Rightarrow> c | None \<Rightarrow> LineBuilder_coord s)"
  using assms(1)
proof (cases rule: serve_cases [of s r])
  case (graph ty coord s'')
  with assms(2) have "GraphFactory_createGraph ty coord s = Some s'" by simp
  from createGraph_frame(3,4) [OF this] show ?thesis
    by (simp add: graph(3))
next
  case (figure ty coord p s'')
  with assms(2) getFigure_effect [OF assms(1), of ty coord] show ?thesis
    by simp
next
  case skip
  then show ?thesis using assms(2) by simp
qed

lemma serve_calls:
  assumes "pool_ok s" and "serve r s = Some s'"
  shows "\<exists>new. calls s' = calls s @ new \<and> set new \<subseteq> set graph_calls \<union> set figure_calls"
  using assms(1)
proof (cases rule: serve_cases [of s r])
  case (graph ty coord s'')
  with assms(2) have "GraphFactory_createGraph ty coord s = Some s'" by simp
  from createGraph_calls [OF this] show ?thesis by blast
next
  case (figure ty coord p s'')
  with assms(2) getFigure_effect [OF assms(1), of ty coord] show ?thesis
    by (simp add: figure_calls_def)
next
  case skip
  then show ?thesis using assms(2) by simp
qed

lemma exec_append:
  "exec (rs @ rs') s = (case exec rs s of None \<Rightarrow> None | Some s' \<Rightarrow> exec rs' s')"
  by (induction rs arbitrary: s) (simp_all split: option.splits)

lemma exec_ok:
  "pool_ok s \<Longrightarrow> \<exists>s'. exec rs s = Some s' \<and> pool_ok s'"
proof (induction rs arbitrary: s)
  case Nil
  then show ?case by simp
next
  case (Cons r rs)
  from serve_ok [OF Cons.prems, of r] obtain s1 where "serve r s = Some s1" "pool_ok s1"
    by blast
  with Cons.IH [of s1] show ?case by simp
qed

lemma exec_pool:
  "pool_ok s \<Longrightarrow> exec rs s = Some s' \<Longrightarrow> pool s \<subseteq>\<^sub>m pool s' \<and> prefix (heap s) (heap s')"
proof (induction rs arbitrary: s)
  case Nil
  then show ?case by simp
next
  case (Cons r rs)
  from serve_ok [OF Cons.prems(1), of r] obtain s1 where s1: "serve r s = Some s1" "pool_ok s1"
    by blast
  with Cons.prems(2) have "exec rs s1 = Some s'" by simp
  from Cons.IH [OF s1(2) this] have later: "pool s1 \<subseteq>\<^sub>m pool s'" "prefix (heap s1) (heap s')"
    by simp_all
  from serve_pool [OF Cons.prems(1) s1(1)]
  have "pool s \<subseteq>\<^sub>m pool s1 \<and> prefix (heap s) (heap s1)"
    by (auto simp: map_le_def)
  with later show ?case
    using map_le_trans prefix_order.trans by blast
qed

lemma exec_coords:
  "pool_ok s \<Longrightarrow> exec rs s = Some s' \<Longrightarrow>
   BarBuilder_coord s' = (case most_recent ''Bar'' rs of Some c \<Rightarrow> c | None \<Rightarrow> BarBuilder_coord s) \<and>
   LineBuilder_coord s' = (case most_recent ''Line'' rs of Some c \<Rightarrow> c | None \<Rightarrow> LineBuilder_coord s)"
proof (induction rs arbitrary: s)
  case Nil
  then show ?case by simp
next
  case (Cons r rs)
  from serve_ok [OF Cons.prems(1), of r] obtain s1 where s1: "serve r s = Some s1" "pool_ok s1"
    by blast
  with Cons.prems(2) have "exec rs s1 = Some s'" by simp
  from Cons.IH [OF s1(2) this] serve_coords [OF Cons.prems(1) s1(1)]
  show ?case by (simp split: option.splits)
qed

lemma exec_calls:
  "pool_ok s \<Longrightarrow> exec rs s = Some s' \<Longrightarrow>
   set (calls s') \<subseteq> set (calls s) \<union> set graph_calls \<union> set figure_calls"
proof (induction rs arbitrary: s)
  case Nil
  then show ?case by auto
next
  case (Cons r rs)
  from serve_ok [OF Cons.prems(1), of r] obtain s1 where s1: "serve r s = Some s1" "pool_ok s1"
    by blast
  with Cons.prems(2) have "exec rs s1 = Some s'" by simp
  from Cons.IH [OF s1(2) this]
  have "set (calls s') \<subseteq> set (calls s1) \<union> set graph_calls \<union> set figure_calls" .
  moreover from serve_calls [OF Cons.prems(1) s1(1)]
  have "set (calls s1) \<subseteq> set (calls s) \<union> set graph_calls \<union> set figure_calls"
    by auto
  ultimately show ?case by blast
qed

lemma deref_later:
  "prefix (heap s) (heap s') \<Longrightarrow> deref p s = Some obj \<Longrightarrow> deref p s' = Some obj"
  by (auto simp: deref_def prefix_def nth_append split: if_splits)

lemma cached_later:
  assumes "pool_ok s" and "pool s key = Some p" and "exec rs s = Some s'"
  shows "pool_ok s'" and "pool s' key = Some p" and "deref p s' = deref p s"
    and "FlyweightFactory_getFigure key s' = (p, s')"
proof -
  from exec_ok [OF assms(1), of rs] assms(3) show ok: "pool_ok s'" by simp
  from exec_pool [OF assms(1,3)] have le: "pool s \<subseteq>\<^sub>m pool s'" and pre: "prefix (heap s) (heap s')"
    by simp_all
  from le assms(2) show in': "pool s' key = Some p"
    by (metis domI map_le_def)
  from assms(1,2) have "deref p s = Some (classify key)"
    by (simp add: pool_ok_def)
  with deref_later [OF pre] show "deref p s' = deref p s" by simp
  from in' show "FlyweightFactory_getFigure key s' = (p, s')"
    by (rule getFigure_cached)
qed

text \<open>The log does record the real diagrams' \<^verbatim>\<open>draw\<close>, were it ever called.\<close>

lemma real_draw_is_logged:
  "''Graph::draw'' \<in> set (calls (Graph_draw s))" "''Figure::draw'' \<in> set (calls (Figure_draw s))"
  by (simp_all add: Graph_draw_def Figure_draw_def output_defs)

subsection \<open>The run of \<^verbatim>\<open>main\<close>\<close>

lemma main_output:
  "\<exists>s. exec main_requests start = Some s \<and>
     cout s =
       ''Line calc at (10,20)'' @ nl @
       ''[Graph Proxy] Drawing graphical + textual stub'' @ nl @
       ''Drag Line at (10,20)'' @ nl @
       ''Bar calc at (15,30)'' @ nl @
       ''[Graph Proxy] Drawing graphical + textual stub'' @ nl @
       ''Drag Bar at (15,30)'' @ nl @
       ''Coordinates: (5,5)'' @ nl @
       ''[Colored Flyweight] Drawing colored figure of type: CircleColor'' @ nl @
       ''Coordinates: (2,3)'' @ nl @
       ''[B/W Flyweight] Drawing black and white figure of type: SquareBW'' @ nl \<and>
     heap s = [ColoredFigure ''CircleColor'', BWFigure ''SquareBW''] \<and>
     pool s ''CircleColor'' = Some 0 \<and> pool s ''SquareBW'' = Some 1 \<and>
     BarBuilder_coord s = ''(15,30)'' \<and> LineBuilder_coord s = ''(10,20)''"
  by (simp add: main_requests_def start_def DiagramFactory_getDiagram_def
      DiagramFactory_createGraph_def DiagramFactory_createFigure_def createGraph_Bar
      createGraph_Line FigureFactory_getFigure_def FlyweightFactory_getFigure_def
      make_shared_def deref_def string_find_def print_def enter_def
      ColoredFigure_draw_def BWFigure_draw_def)

section \<open>The properties of the specification\<close>

text \<open>
  C1. In every state that an execution reaches, the figure that
  \<^verbatim>\<open>FlyweightFactory::getFigure\<close> returns for a key, and so the figure that
  \<^verbatim>\<open>FigureFactory::getFigure\<close> returns, is a \<^verbatim>\<open>ColoredFigure\<close> of that key when the
  key contains the substring "Color" and a \<^verbatim>\<open>BWFigure\<close> of that key when it does not,
  whether the figure is made by this call or was cached by an earlier one.
\<close>

theorem figure_variant_by_key:
  "\<exists>s. exec rs start = Some s \<and>
     (case FlyweightFactory_getFigure key s of
        (p, s') \<Rightarrow> deref p s' =
          Some (if \<exists>u v. key = u @ ''Color'' @ v then ColoredFigure key else BWFigure key)) \<and>
     (\<exists>p s'. FigureFactory_getFigure key coord s = Some (p, s') \<and>
        deref p s' =
          Some (if \<exists>u v. key = u @ ''Color'' @ v then ColoredFigure key else BWFigure key))"
proof -
  from exec_ok [OF pool_ok_start, of rs] obtain s where s: "exec rs start = Some s" "pool_ok s"
    by blast
  have c: "classify key = (if \<exists>u v. key = u @ ''Color'' @ v then ColoredFigure key else BWFigure key)"
    unfolding classify_def string_find_contains ..
  obtain p s1 where g: "FlyweightFactory_getFigure key s = (p, s1)"
    by (cases "FlyweightFactory_getFigure key s")
  from getFigure_pool_ok [OF s(2) g] have "deref p s1 = Some (classify key)" by simp
  moreover from getFigure_effect [OF s(2), of key coord]
  have "\<exists>p s'. FigureFactory_getFigure key coord s = Some (p, s') \<and> deref p s' = Some (classify key)"
    by blast
  ultimately show ?thesis
    using s(1) g unfolding c by simp
qed

text \<open>
  C2. Two calls of \<^verbatim>\<open>FigureFactory::getFigure\<close> with the same key return the same
  address, whatever happened before the first call and whatever requests run between
  the two; before the second call \<^verbatim>\<open>FlyweightFactory::getFigure\<close> returns that
  address too, without changing the state, and the object at the address is the one the
  first call returned.
\<close>

theorem same_key_same_instance:
  "\<exists>s1 p s2 s3 s4.
     exec rs start = Some s1 \<and>
     FigureFactory_getFigure key c1 s1 = Some (p, s2) \<and>
     exec rs' s2 = Some s3 \<and>
     FlyweightFactory_getFigure key s3 = (p, s3) \<and>
     FigureFactory_getFigure key c2 s3 = Some (p, s4) \<and>
     deref p s4 = deref p s2"
proof -
  from exec_ok [OF pool_ok_start, of rs] obtain s1 where s1: "exec rs start = Some s1" "pool_ok s1"
    by blast
  from getFigure_effect [OF s1(2), of key c1] obtain p s2
    where s2: "FigureFactory_getFigure key c1 s1 = Some (p, s2)" "pool_ok s2" "pool s2 key = Some p"
    by blast
  from exec_ok [OF s2(2), of rs'] obtain s3 where s3: "exec rs' s2 = Some s3"
    by blast
  note later = cached_later [OF s2(2,3) s3]
  from getFigure_again [OF later(1,2), of c2] obtain s4
    where s4: "FigureFactory_getFigure key c2 s3 = Some (p, s4)" "heap s4 = heap s3"
    by blast
  from deref_heap [OF s4(2), of p] later(3) have "deref p s4 = deref p s2"
    by simp
  with s1(1) s2(1) s3 later(4) s4(1) show ?thesis by blast
qed

text \<open>
  C3. An element string other than "Graph" and "Figure" makes
  \<^verbatim>\<open>DiagramFactory::getDiagram\<close> return the state it was given, whatever the state: nothing
  is printed, no builder coordinate and no pool entry changes. A graph type other than
  "Bar" and "Line" does the same to \<^verbatim>\<open>GraphFactory::createGraph\<close>, called directly,
  through \<^verbatim>\<open>DiagramFactory::createGraph\<close> or through \<^verbatim>\<open>getDiagram\<close> with "Graph".
\<close>

theorem unrecognised_is_no_op:
  "(element \<noteq> ''Graph'' \<and> element \<noteq> ''Figure'' \<longrightarrow>
      DiagramFactory_getDiagram this element ty coord s = Some s) \<and>
   (ty \<noteq> ''Bar'' \<and> ty \<noteq> ''Line'' \<longrightarrow>
      GraphFactory_createGraph ty coord s = Some s \<and>
      DiagramFactory_createGraph this ty coord s = Some s \<and>
      DiagramFactory_getDiagram this ''Graph'' ty coord s = Some s)"
  by (simp add: DiagramFactory_getDiagram_def DiagramFactory_createGraph_def createGraph_other)

theorem unrecognised_is_no_op_witness:
  "DiagramFactory_getDiagram 0 ''Shape'' ''Bar'' ''(1,2)'' start = Some start \<and>
   GraphFactory_createGraph ''Pie'' ''(1,2)'' start = Some start \<and>
   DiagramFactory_createGraph 0 ''Pie'' ''(1,2)'' start = Some start \<and>
   DiagramFactory_getDiagram 0 ''Graph'' ''Pie'' ''(1,2)'' start = Some start"
  using unrecognised_is_no_op [of "''Shape''" 0 "''Bar''" "''(1,2)''" start]
    unrecognised_is_no_op [of "''Graph''" 0 "''Pie''" "''(1,2)''" start]
  by simp

text \<open>
  C4. For the type "Bar" and for the type "Line", with any coordinate string and from any
  state, \<^verbatim>\<open>GraphFactory::createGraph\<close> returns, and its result is the four steps
  \<^verbatim>\<open>setCoord(coord)\<close>, \<^verbatim>\<open>calc()\<close>, \<^verbatim>\<open>draw()\<close>, \<^verbatim>\<open>drag()\<close> of that type's
  singleton builder applied in this order. The log grows by exactly these four entries of
  the selected builder, with the proxy's \<^verbatim>\<open>draw\<close> inside the builder's \<^verbatim>\<open>draw\<close> and no
  entry of the other builder.
\<close>

theorem createGraph_runs_four_steps:
  "(\<exists>s'. GraphFactory_createGraph ''Bar'' coord s = Some s' \<and>
         s' = BarBuilder_drag (BarBuilder_draw (BarBuilder_calc (BarBuilder_setCoord coord s))) \<and>
         calls s' = calls s @ [''BarBuilder::setCoord'', ''BarBuilder::calc'',
                       ''BarBuilder::draw'', ''DrawGraph::draw'', ''BarBuilder::drag'']) \<and>
   (\<exists>s'. GraphFactory_createGraph ''Line'' coord s = Some s' \<and>
         s' = LineBuilder_drag (LineBuilder_draw (LineBuilder_calc (LineBuilder_setCoord coord s))) \<and>
         calls s' = calls s @ [''LineBuilder::setCoord'', ''LineBuilder::calc'',
                       ''LineBuilder::draw'', ''DrawGraph::draw'', ''LineBuilder::drag''])"
  by (simp add: createGraph_Bar createGraph_Line builder_defs output_defs)

text \<open>
  C5. \<^verbatim>\<open>DrawGraph::draw\<close> appends the one fixed line
  "[Graph Proxy] Drawing graphical + textual stub" to the output and changes nothing else
  of the program's data. The \<^verbatim>\<open>draw\<close> of the bar builder and the \<^verbatim>\<open>draw\<close> of the
  line builder, and so a \<^verbatim>\<open>draw\<close> through any \<^verbatim>\<open>Builder*\<close>, write exactly that line,
  whatever the coordinates and the rest of the state are. The function is total: there is
  no state in which it fails to return.
\<close>

theorem proxy_draw_is_fixed:
  "DrawGraph_draw s =
     s\<lparr>cout := cout s @ ''[Graph Proxy] Drawing graphical + textual stub'' @ nl,
        calls := calls s @ [''DrawGraph::draw'']\<rparr> \<and>
   cout (BarBuilder_draw s) = cout s @ ''[Graph Proxy] Drawing graphical + textual stub'' @ nl \<and>
   cout (LineBuilder_draw s) = cout s @ ''[Graph Proxy] Drawing graphical + textual stub'' @ nl \<and>
   cout (Builder_draw b s) = cout s @ ''[Graph Proxy] Drawing graphical + textual stub'' @ nl"
  by (cases b) (simp_all add: builder_defs output_defs)

text \<open>
  C6. After any execution, however graph requests of the two types and other requests
  are interleaved, the coordinate of the bar builder is the coordinate of the most recent
  "Bar" request, or what it was before if there was none, and the coordinate of the line
  builder is that of the most recent "Line" request. In particular \<^verbatim>\<open>createGraph\<close> with
  "Bar" leaves the line builder's coordinate alone, and a following \<^verbatim>\<open>createGraph\<close>
  with "Line" leaves the bar builder's.
\<close>

theorem builders_keep_own_coordinate:
  "(\<exists>s s'. exec rs start = Some s \<and> exec rs' s = Some s' \<and>
      BarBuilder_coord s' = (case most_recent ''Bar'' rs' of Some c \<Rightarrow> c | None \<Rightarrow> BarBuilder_coord s) \<and>
      LineBuilder_coord s' = (case most_recent ''Line'' rs' of Some c \<Rightarrow> c | None \<Rightarrow> LineBuilder_coord s)) \<and>
   (\<exists>s1 s2. GraphFactory_createGraph ''Bar'' c1 s0 = Some s1 \<and>
      GraphFactory_createGraph ''Line'' c2 s1 = Some s2 \<and>
      BarBuilder_coord s1 = c1 \<and> LineBuilder_coord s1 = LineBuilder_coord s0 \<and>
      BarBuilder_coord s2 = c1 \<and> LineBuilder_coord s2 = c2)"
proof
  from exec_ok [OF pool_ok_start, of rs] obtain s where s: "exec rs start = Some s" "pool_ok s"
    by blast
  from exec_ok [OF s(2), of rs'] obtain s' where s': "exec rs' s = Some s'"
    by blast
  from exec_coords [OF s(2) s'] s(1) s'
  show "\<exists>s s'. exec rs start = Some s \<and> exec rs' s = Some s' \<and>
      BarBuilder_coord s' = (case most_recent ''Bar'' rs' of Some c \<Rightarrow> c | None \<Rightarrow> BarBuilder_coord s) \<and>
      LineBuilder_coord s' = (case most_recent ''Line'' rs' of Some c \<Rightarrow> c | None \<Rightarrow> LineBuilder_coord s)"
    by blast
next
  show "\<exists>s1 s2. GraphFactory_createGraph ''Bar'' c1 s0 = Some s1 \<and>
      GraphFactory_createGraph ''Line'' c2 s1 = Some s2 \<and>
      BarBuilder_coord s1 = c1 \<and> LineBuilder_coord s1 = LineBuilder_coord s0 \<and>
      BarBuilder_coord s2 = c1 \<and> LineBuilder_coord s2 = c2"
    by (simp add: createGraph_Bar createGraph_Line)
qed

text \<open>
  C7. In every reachable state a request either leaves the pool as it is or adds one
  entry under a key that had none. Over any further execution the pool only grows: each
  key that had a handle keeps that same handle, and the objects in the store stay where
  they are.
\<close>

theorem pool_only_grows:
  "\<exists>s s' s''. exec rs start = Some s \<and>
     serve r s = Some s' \<and>
     (pool s' = pool s \<or> (\<exists>k p. pool s k = None \<and> pool s' = (pool s)(k \<mapsto> p))) \<and>
     exec rs' s = Some s'' \<and> pool s \<subseteq>\<^sub>m pool s'' \<and> prefix (heap s) (heap s'')"
proof -
  from exec_ok [OF pool_ok_start, of rs] obtain s where s: "exec rs start = Some s" "pool_ok s"
    by blast
  from serve_ok [OF s(2), of r] obtain s' where s': "serve r s = Some s'"
    by blast
  from exec_ok [OF s(2), of rs'] obtain s'' where s'': "exec rs' s = Some s''"
    by blast
  from serve_pool [OF s(2) s']
  have "pool s' = pool s \<or> (\<exists>k p. pool s k = None \<and> pool s' = (pool s)(k \<mapsto> p))"
    by blast
  with s(1) s' s'' exec_pool [OF s(2) s''] show ?thesis by blast
qed

text \<open>
  C8. In every reachable state, \<^verbatim>\<open>getDiagram("Figure","CircleColor","(5,5)")\<close> on any
  factory returns and appends to the output exactly the line "Coordinates: (5,5)"
  followed by the line "[Colored Flyweight] Drawing colored figure of type: CircleColor".
\<close>

theorem colored_circle_scenario:
  "\<exists>s s'. exec rs start = Some s \<and>
     DiagramFactory_getDiagram this ''Figure'' ''CircleColor'' ''(5,5)'' s = Some s' \<and>
     cout s' = cout s @ ''Coordinates: (5,5)'' @ nl @
        ''[Colored Flyweight] Drawing colored figure of type: CircleColor'' @ nl"
proof -
  from exec_ok [OF pool_ok_start, of rs] obtain s where s: "exec rs start = Some s" "pool_ok s"
    by blast
  have "string_find ''CircleColor'' ''Color'' \<noteq> None"
    by (simp add: string_find_def)
  with getFigure_effect [OF s(2), of "''CircleColor''" "''(5,5)''"] obtain p s'
    where "FigureFactory_getFigure ''CircleColor'' ''(5,5)'' s = Some (p, s')"
      and "cout s' = cout s @ ''Coordinates: (5,5)'' @ nl @
        ''[Colored Flyweight] Drawing colored figure of type: CircleColor'' @ nl"
    by auto
  with s(1) show ?thesis
    by (simp add: DiagramFactory_getDiagram_def DiagramFactory_createFigure_def)
qed

text \<open>
  C9. No execution ever enters \<^verbatim>\<open>Graph::draw\<close> or \<^verbatim>\<open>Figure::draw\<close>. On the graph
  path the calls are those of the selected builder with the proxy's \<^verbatim>\<open>draw\<close> inside
  the builder's \<^verbatim>\<open>draw\<close>, and what a builder's \<^verbatim>\<open>draw\<close> prints is what the proxy
  prints.
\<close>

theorem real_draw_never_runs:
  "(\<exists>s. exec rs start = Some s \<and>
      ''Graph::draw'' \<notin> set (calls s) \<and> ''Figure::draw'' \<notin> set (calls s)) \<and>
   (\<exists>s'. DiagramFactory_getDiagram this ''Graph'' ''Bar'' coord s0 = Some s' \<and>
      calls s' = calls s0 @ [''BarBuilder::setCoord'', ''BarBuilder::calc'',
                    ''BarBuilder::draw'', ''DrawGraph::draw'', ''BarBuilder::drag'']) \<and>
   (\<exists>s'. DiagramFactory_getDiagram this ''Graph'' ''Line'' coord s0 = Some s' \<and>
      calls s' = calls s0 @ [''LineBuilder::setCoord'', ''LineBuilder::calc'',
                    ''LineBuilder::draw'', ''DrawGraph::draw'', ''LineBuilder::drag'']) \<and>
   cout (Builder_draw b s0) = cout (DrawGraph_draw s0)"
proof (intro conjI)
  from exec_ok [OF pool_ok_start, of rs] obtain s where s: "exec rs start = Some s"
    by blast
  from exec_calls [OF pool_ok_start s]
  have "set (calls s) \<subseteq> set graph_calls \<union> set figure_calls"
    by (simp add: start_def)
  moreover have "''Graph::draw'' \<notin> set graph_calls \<union> set figure_calls"
    and "''Figure::draw'' \<notin> set graph_calls \<union> set figure_calls"
    by (simp_all add: graph_calls_def figure_calls_def)
  ultimately show "\<exists>s. exec rs start = Some s \<and>
      ''Graph::draw'' \<notin> set (calls s) \<and> ''Figure::draw'' \<notin> set (calls s)"
    using s by blast
next
  show "\<exists>s'. DiagramFactory_getDiagram this ''Graph'' ''Bar'' coord s0 = Some s' \<and>
      calls s' = calls s0 @ [''BarBuilder::setCoord'', ''BarBuilder::calc'',
                    ''BarBuilder::draw'', ''DrawGraph::draw'', ''BarBuilder::drag'']"
    by (simp add: DiagramFactory_getDiagram_def DiagramFactory_createGraph_def createGraph_Bar)
next
  show "\<exists>s'. DiagramFactory_getDiagram this ''Graph'' ''Line'' coord s0 = Some s' \<and>
      calls s' = calls s0 @ [''LineBuilder::setCoord'', ''LineBuilder::calc'',
                    ''LineBuilder::draw'', ''DrawGraph::draw'', ''LineBuilder::drag'']"
    by (simp add: DiagramFactory_getDiagram_def DiagramFactory_createGraph_def createGraph_Line)
next
  show "cout (Builder_draw b s0) = cout (DrawGraph_draw s0)"
    by (cases b) (simp_all add: builder_defs output_defs)
qed

text \<open>
  C10. A figure cached by \<^verbatim>\<open>createFigure\<close> on one \<^verbatim>\<open>DiagramFactory\<close> is the figure
  that \<^verbatim>\<open>createFigure\<close> with the same key finds on any other: the second call gets
  from \<^verbatim>\<open>FigureFactory::getFigure\<close> the address that the first call stored in the
  pool, with the same object behind it, whatever requests ran before and between.
\<close>

theorem one_pool_for_all_factories:
  "\<exists>s0 s1 p s2 s3.
     exec rs start = Some s0 \<and>
     DiagramFactory_createFigure d1 key c1 s0 = Some s1 \<and> pool s1 key = Some p \<and>
     exec rs' s1 = Some s2 \<and>
     FigureFactory_getFigure key c2 s2 = Some (p, s3) \<and>
     DiagramFactory_createFigure d2 key c2 s2 = Some s3 \<and> pool s3 key = Some p \<and>
     deref p s3 = deref p s1"
proof -
  from exec_ok [OF pool_ok_start, of rs] obtain s0 where s0: "exec rs start = Some s0" "pool_ok s0"
    by blast
  from getFigure_effect [OF s0(2), of key c1] obtain p s1
    where s1: "FigureFactory_getFigure key c1 s0 = Some (p, s1)" "pool_ok s1" "pool s1 key = Some p"
    by blast
  from exec_ok [OF s1(2), of rs'] obtain s2 where s2: "exec rs' s1 = Some s2"
    by blast
  note later = cached_later [OF s1(2,3) s2]
  from getFigure_again [OF later(1,2), of c2] obtain s3
    where s3: "FigureFactory_getFigure key c2 s2 = Some (p, s3)" "pool s3 = pool s2" "heap s3 = heap s2"
    by blast
  from deref_heap [OF s3(3), of p] later(3) have d: "deref p s3 = deref p s1"
    by simp
  have a: "DiagramFactory_createFigure d1 key c1 s0 = Some s1"
    and b: "DiagramFactory_createFigure d2 key c2 s2 = Some s3"
    using s1(1) s3(1) by (simp_all add: DiagramFactory_createFigure_def)
  from later(2) s3(2) have "pool s3 key = Some p" by simp
  with s0(1) a s1(3) s2 s3(1) b d show ?thesis by blast
qed

end
